theory Spec2Isabelle
  imports Main
begin

section \<open>Cross-platform utilities of the Agent Starter Pack CLI\<close>

text \<open>
  A shallow embedding of \<^verbatim>\<open>src/cli/utils/platform_utils.py\<close>. The module is a thin
  layer over the Python runtime: it reads \<^verbatim>\<open>platform.system()\<close>, \<^verbatim>\<open>shutil.which\<close> and
  \<^verbatim>\<open>os.environ\<close>, spawns sub-processes, writes files and logs. Everything the module
  reads or mutates outside its own code is a field of the record \<open>world\<close>; a function
  that only reads takes the world, a function that mutates returns the new one, and a
  function that may raise returns \<open>exn + 'a\<close> together with the new world.
\<close>

subsection \<open>The runtime the module runs in\<close>

text \<open>A \<^verbatim>\<open>pathlib.Path\<close> is the list of its components; \<^verbatim>\<open>p / "name"\<close> appends one.\<close>

type_synonym path = "string list"

definition path_join :: "path \<Rightarrow> string \<Rightarrow> path" where
  "path_join p name = p @ [name]"

text \<open>
  A Python \<^verbatim>\<open>str\<close> is modelled by its UTF-8 encoding, a \<open>string\<close> of bytes; the
  raw output of a process is a \<open>string\<close> of bytes as well, valid UTF-8 or not.
\<close>

text \<open>
  The exceptions the modelled operations raise. \<open>CalledProcessError\<close> has the fields
  of \<^verbatim>\<open>subprocess.CalledProcessError\<close>; \<open>FileNotFoundError\<close>, \<open>PermissionError\<close> and
  \<open>OSError\<close> are \<^verbatim>\<open>OSError\<close> and two of its subclasses, with the file name they are
  about; \<open>UnicodeDecodeError\<close> has the bytes that do not decode. All five are
  subclasses of \<^verbatim>\<open>Exception\<close>.
\<close>

datatype exn =
    CalledProcessError (cpe_returncode: int) (cpe_cmd: "string list")
      (cpe_output: "string option") (cpe_stderr: "string option")
  | FileNotFoundError path
  | PermissionError path
  | OSError path
  | UnicodeDecodeError string

text \<open>Why a process could not be started, and the exception \<^verbatim>\<open>Popen\<close> raises for it.\<close>

datatype spawn_failure = NoSuchFile path | NotPermitted path | OtherFailure path

fun spawn_exn :: "spawn_failure \<Rightarrow> exn" where
  "spawn_exn (NoSuchFile p) = FileNotFoundError p"
| "spawn_exn (NotPermitted p) = PermissionError p"
| "spawn_exn (OtherFailure p) = OSError p"

text \<open>\<^verbatim>\<open>subprocess.CompletedProcess\<close>.\<close>

record completed_process =
  cp_args :: "string list"
  cp_returncode :: int
  cp_stdout :: "string option"
  cp_stderr :: "string option"

datatype log_record = LogInfo string | LogWarning string | LogError string

record world =
  platform_system :: string
    \<comment> \<open>what \<^verbatim>\<open>platform.system()\<close> returns\<close>
  os_has_add_dll_directory :: bool
    \<comment> \<open>\<^verbatim>\<open>hasattr(os, "add_dll_directory")\<close>\<close>
  os_environ :: "string \<rightharpoonup> string"
  shutil_which :: "string \<Rightarrow> string option"
    \<comment> \<open>the PATH resolution: executable name to resolved path\<close>
  fs_dirs :: "path set"
    \<comment> \<open>the directories that exist\<close>
  fs_files :: "path \<rightharpoonup> string"
    \<comment> \<open>the regular files and their text, as a text-mode read returns it; distinct
        paths are distinct files\<close>
  fs_denied :: "path set"
    \<comment> \<open>files that may not be opened for writing\<close>
  fs_faulty :: "path set"
    \<comment> \<open>files that open for writing but whose write fails (device or quota error)\<close>
  process_outcome ::
    "string list \<Rightarrow> path option \<Rightarrow> spawn_failure + (int \<times> string \<times> string)"
    \<comment> \<open>what spawning the tokens in a working directory gives: why the process
        cannot be started, or its exit code and the raw bytes it writes to stdout and
        stderr\<close>
  decode_errors_raise :: bool
    \<comment> \<open>how \<^verbatim>\<open>Popen.communicate\<close> treats a captured stream that does not decode:
        the POSIX implementation decodes in the caller and raises; the win32
        implementation decodes in a reader thread, where the error is lost and the
        stream comes back as \<^verbatim>\<open>None\<close>\<close>
  spawned :: "string list list"
    \<comment> \<open>the token lists handed to the spawner so far, oldest first\<close>
  logged :: "log_record list"
    \<comment> \<open>the records handed to \<^verbatim>\<open>logging\<close>, oldest first\<close>
  exc_str :: "exn \<Rightarrow> string"
    \<comment> \<open>Python's \<^verbatim>\<open>str()\<close> of an exception\<close>

definition logging_info :: "string \<Rightarrow> world \<Rightarrow> world" where
  "logging_info msg w = w\<lparr>logged := logged w @ [LogInfo msg]\<rparr>"

definition logging_warning :: "string \<Rightarrow> world \<Rightarrow> world" where
  "logging_warning msg w = w\<lparr>logged := logged w @ [LogWarning msg]\<rparr>"

definition logging_error :: "string \<Rightarrow> world \<Rightarrow> world" where
  "logging_error msg w = w\<lparr>logged := logged w @ [LogError msg]\<rparr>"

text \<open>
  A triple-quoted literal of the source is the list of its lines, each ended by a
  newline.
\<close>

definition text_block :: "string list \<Rightarrow> string" where
  "text_block ls = concat (map (\<lambda>l. l @ ''\<newline>'') ls)"

text \<open>Python's \<^verbatim>\<open>sub in s\<close> on strings.\<close>

fun starts_with :: "string \<Rightarrow> string \<Rightarrow> bool" where
  "starts_with s [] = True"
| "starts_with [] (c # cs) = False"
| "starts_with (x # xs) (c # cs) = (x = c \<and> starts_with xs cs)"

fun str_contains :: "string \<Rightarrow> string \<Rightarrow> bool" where
  "str_contains [] sub = (sub = [])"
| "str_contains (x # xs) sub = (starts_with (x # xs) sub \<or> str_contains xs sub)"

subsection \<open>Platform detection\<close>

definition is_windows :: "world \<Rightarrow> bool" where
  "is_windows w = (platform_system w = ''Windows'')"

definition is_macos :: "world \<Rightarrow> bool" where
  "is_macos w = (platform_system w = ''Darwin'')"

definition is_linux :: "world \<Rightarrow> bool" where
  "is_linux w = (platform_system w = ''Linux'')"

datatype platform_identity = Windows | MacOS | Linux | Other

text \<open>
  Modelled from the spec: \<open>detect_platform\<close>, which the source does not have as a
  function of its own. The spec's platform identity is the classification of the OS
  name into Windows, macOS, Linux or Other; it is written here over the three
  predicates of the source, tested in the order the source tests them.
\<close>

definition detect_platform :: "world \<Rightarrow> platform_identity" where
  "detect_platform w =
     (if is_windows w then Windows
      else if is_macos w then MacOS
      else if is_linux w then Linux
      else Other)"

subsection \<open>Command shapes\<close>

definition get_shell_command :: "world \<Rightarrow> string \<Rightarrow> string list" where
  "get_shell_command w command =
     (if is_windows w then [''cmd'', ''/c'', command]
      else [''sh'', ''-c'', command])"

definition get_npm_install_command :: "world \<Rightarrow> string \<Rightarrow> string" where
  "get_npm_install_command w frontend_dir =
     (if is_windows w then ''cd '' @ frontend_dir @ '' && npm install''
      else ''npm --prefix '' @ frontend_dir @ '' install'')"

subsection \<open>Tool discovery\<close>

definition check_command_exists :: "world \<Rightarrow> string \<Rightarrow> bool" where
  "check_command_exists w command = (shutil_which w command \<noteq> None)"

text \<open>The \<^verbatim>\<open>for\<close> loop of \<^verbatim>\<open>get_make_command\<close> over the remaining candidates.\<close>

fun get_make_command_loop :: "world \<Rightarrow> string list \<Rightarrow> string option" where
  "get_make_command_loop w [] = None"
| "get_make_command_loop w (c # cs) =
     (if check_command_exists w c then Some c else get_make_command_loop w cs)"

definition make_commands :: "string list" where
  "make_commands = [''make'', ''gmake'', ''mingw32-make'']"

definition get_make_command :: "world \<Rightarrow> string option" where
  "get_make_command w = get_make_command_loop w make_commands"

definition suggest_make_installation :: "world \<Rightarrow> string" where
  \<open>suggest_make_installation w =
     (if is_windows w then text_block
        ['''',
         ''Make is not available. To install make on Windows, use one of these options:'',
         '''',
         ''1. Using Chocolatey:'',
         ''   choco install make'',
         '''',
         ''2. Using Winget:'',
         ''   winget install GnuWin32.Make'',
         '''',
         ''3. Using Scoop:'',
         ''   scoop install make'',
         '''',
         ''4. Using Visual Studio Build Tools (includes nmake):'',
         ''   - Install Visual Studio Build Tools'',
         ''   - Use 'nmake' instead of 'make'' @ [CHR 0x27],
         '''',
         ''5. Using WSL (Windows Subsystem for Linux):'',
         ''   wsl --install'',
         ''   # Then use make within WSL'']
      else if is_macos w then text_block
        ['''',
         ''Make is not available. To install make on macOS:'',
         '''',
         ''1. Install Xcode Command Line Tools:'',
         ''   xcode-select --install'',
         '''',
         ''2. Using Homebrew:'',
         ''   brew install make'']
      else text_block
        ['''',
         ''Make is not available. To install make on Linux:'',
         '''',
         ''1. Ubuntu/Debian:'',
         ''   sudo apt update && sudo apt install build-essential'',
         '''',
         ''2. CentOS/RHEL/Fedora:'',
         ''   sudo yum install make'',
         ''   # or'',
         ''   sudo dnf install make'',
         '''',
         ''3. Arch Linux:'',
         ''   sudo pacman -S make''])\<close>

subsection \<open>Running a command\<close>

text \<open>
  Strict UTF-8, as \<^verbatim>\<open>bytes.decode("utf-8")\<close> accepts it: the well-formed byte
  sequences of the Unicode standard, with no overlong form, no surrogate and nothing
  above U+10FFFF.
\<close>

definition in_range :: "nat \<Rightarrow> nat \<Rightarrow> char \<Rightarrow> bool" where
  "in_range lo hi c = (lo \<le> of_char c \<and> of_char c \<le> (hi :: nat))"

fun utf8_valid :: "string \<Rightarrow> bool" where
  "utf8_valid [] = True"
| "utf8_valid (b # bs) =
     (if in_range 0x00 0x7F b then utf8_valid bs
      else if in_range 0xC2 0xDF b then
        (case bs of
           c1 # r \<Rightarrow> in_range 0x80 0xBF c1 \<and> utf8_valid r
         | _ \<Rightarrow> False)
      else if in_range 0xE0 0xEF b then
        (case bs of
           c1 # c2 # r \<Rightarrow>
             in_range (if b = CHR 0xE0 then 0xA0 else 0x80)
                      (if b = CHR 0xED then 0x9F else 0xBF) c1
             \<and> in_range 0x80 0xBF c2 \<and> utf8_valid r
         | _ \<Rightarrow> False)
      else if in_range 0xF0 0xF4 b then
        (case bs of
           c1 # c2 # c3 # r \<Rightarrow>
             in_range (if b = CHR 0xF0 then 0x90 else 0x80)
                      (if b = CHR 0xF4 then 0x8F else 0xBF) c1
             \<and> in_range 0x80 0xBF c2 \<and> in_range 0x80 0xBF c3 \<and> utf8_valid r
         | _ \<Rightarrow> False)
      else False)"

text \<open>
  \<^verbatim>\<open>data.replace("\r\n", "\n").replace("\r", "\n")\<close>, the newline translation of text
  mode.
\<close>

fun replace_crlf :: "string \<Rightarrow> string" where
  "replace_crlf [] = []"
| "replace_crlf [c] = [c]"
| "replace_crlf (c # d # cs) =
     (if c = CHR 0x0D \<and> d = CHR 0x0A then CHR 0x0A # replace_crlf cs
      else c # replace_crlf (d # cs))"

definition replace_cr :: "string \<Rightarrow> string" where
  "replace_cr s = map (\<lambda>c. if c = CHR 0x0D then CHR 0x0A else c) s"

definition translate_newlines :: "string \<Rightarrow> string" where
  "translate_newlines data = replace_cr (replace_crlf data)"

text \<open>
  \<^verbatim>\<open>subprocess.run(args, cwd=..., capture_output=..., text=True, check=...,
  encoding="utf-8")\<close> of the standard library. One call of the spawner; a process that
  cannot be started raises the spawner's error. The streams are present only when
  captured, and then they are decoded as strict UTF-8, stdout first, and their
  newlines translated; a stream that does not decode raises \<open>UnicodeDecodeError\<close> or
  is lost, as the runtime has it. With \<open>check\<close>, a non-zero exit code raises
  \<open>CalledProcessError\<close> with the tokens and the streams.
\<close>

definition completed ::
  "string list \<Rightarrow> int \<Rightarrow> string option \<Rightarrow> string option \<Rightarrow> bool \<Rightarrow> exn + completed_process" where
  "completed args rc stdout stderr check =
     (if check \<and> rc \<noteq> 0 then Inl (CalledProcessError rc args stdout stderr)
      else Inr \<lparr>cp_args = args, cp_returncode = rc,
                cp_stdout = stdout, cp_stderr = stderr\<rparr>)"

definition subprocess_run ::
  "world \<Rightarrow> string list \<Rightarrow> path option \<Rightarrow> bool \<Rightarrow> bool \<Rightarrow> (exn + completed_process) \<times> world" where
  "subprocess_run w args cwd capture_output check =
     (let w1 = w\<lparr>spawned := spawned w @ [args]\<rparr> in
      case process_outcome w args cwd of
        Inl f \<Rightarrow> (Inl (spawn_exn f), w1)
      | Inr (rc, out, err) \<Rightarrow>
          if \<not> capture_output then (completed args rc None None check, w1)
          else if decode_errors_raise w \<and> \<not> utf8_valid out
            then (Inl (UnicodeDecodeError out), w1)
          else if decode_errors_raise w \<and> \<not> utf8_valid err
            then (Inl (UnicodeDecodeError err), w1)
          else
            (let stdout = (if utf8_valid out then Some (translate_newlines out) else None);
                 stderr = (if utf8_valid err then Some (translate_newlines err) else None)
             in (completed args rc stdout stderr check, w1)))"

text \<open>
  The \<^verbatim>\<open>except subprocess.CalledProcessError\<close> clause: two error records, then the
  same exception is raised again. \<^verbatim>\<open>e.stderr if e.stderr else str(e)\<close> takes the
  stream when it is neither \<^verbatim>\<open>None\<close> nor empty.
\<close>

definition run_cross_platform_command ::
  "world \<Rightarrow> string \<Rightarrow> path option \<Rightarrow> bool \<Rightarrow> bool \<Rightarrow> (exn + completed_process) \<times> world" where
  "run_cross_platform_command w command cwd capture_output check =
     (let shell_cmd = get_shell_command w command in
      case subprocess_run w shell_cmd cwd capture_output check of
        (Inr result, w1) \<Rightarrow> (Inr result, w1)
      | (Inl e, w1) \<Rightarrow>
          (case e of
             CalledProcessError rc c out err \<Rightarrow>
               (let w2 = logging_error (''Command failed: '' @ command) w1;
                    detail = (case err of
                                Some s \<Rightarrow> if s \<noteq> [] then s else exc_str w2 e
                              | None \<Rightarrow> exc_str w2 e);
                    w3 = logging_error (''Error: '' @ detail) w2
                in (Inl e, w3))
           | _ \<Rightarrow> (Inl e, w1)))"

subsection \<open>UTF-8 setup\<close>

text \<open>\<^verbatim>\<open>os.environ.setdefault(key, value)\<close>.\<close>

definition environ_setdefault :: "string \<Rightarrow> string \<Rightarrow> world \<Rightarrow> world" where
  "environ_setdefault key val w =
     (case os_environ w key of
        Some _ \<Rightarrow> w
      | None \<Rightarrow> w\<lparr>os_environ := (os_environ w)(key \<mapsto> val)\<rparr>)"

definition ensure_utf8_encoding :: "world \<Rightarrow> world" where
  "ensure_utf8_encoding w =
     (if is_windows w then
        (let w1 = environ_setdefault ''PYTHONIOENCODING'' ''utf-8'' w in
         if os_has_add_dll_directory w1 then environ_setdefault ''PYTHONUTF8'' ''1'' w1
         else w1)
      else w)"

subsection \<open>Build scripts\<close>

text \<open>
  \<^verbatim>\<open>with open(path, "w", encoding="utf-8") as f: f.write(content)\<close>. Opening fails when
  the parent directory does not exist, when the path is a directory, or when the file
  may not be written; opening truncates the file, so a write that fails afterwards
  leaves it empty.
\<close>

definition can_write :: "world \<Rightarrow> path \<Rightarrow> bool" where
  "can_write w p =
     (butlast p \<in> fs_dirs w \<and> p \<notin> fs_dirs w \<and> p \<notin> fs_denied w \<and> p \<notin> fs_faulty w)"

definition write_text_file :: "world \<Rightarrow> path \<Rightarrow> string \<Rightarrow> (exn + unit) \<times> world" where
  "write_text_file w p content =
     (if butlast p \<notin> fs_dirs w then (Inl (FileNotFoundError p), w)
      else if p \<in> fs_dirs w then (Inl (OSError p), w)
      else if p \<in> fs_denied w then (Inl (PermissionError p), w)
      else if p \<in> fs_faulty w
        then (Inl (OSError p), w\<lparr>fs_files := (fs_files w)(p \<mapsto> [])\<rparr>)
      else (Inr (), w\<lparr>fs_files := (fs_files w)(p \<mapsto> content)\<rparr>))"

definition batch_content :: string where
  \<open>batch_content = text_block
     [''@echo off'',
      ''REM Windows batch script for Agent Starter Pack'',
      '''',
      ''set SCRIPT_DIR=%~dp0'',
      ''cd /d "%SCRIPT_DIR%"'',
      '''',
      ''if "%1"=="install" goto install'',
      ''if "%1"=="playground" goto playground'',
      ''if "%1"=="test" goto test'',
      ''if "%1"=="lint" goto lint'',
      ''goto help'',
      '''',
      '':install'',
      ''echo Installing dependencies...'',
      ''uv sync --dev --extra jupyter --extra streamlit'',
      ''if exist "frontend" ('',
      ''    cd frontend && npm install && cd ..'',
      '')'',
      ''goto end'',
      '''',
      '':playground'',
      ''echo Starting playground...'',
      ''uv run streamlit run app/main.py'',
      ''goto end'',
      '''',
      '':test'',
      ''echo Running tests...'',
      ''uv run pytest tests/'',
      ''goto end'',
      '''',
      '':lint'',
      ''echo Running linters...'',
      ''uv run ruff check .'',
      ''uv run mypy .'',
      ''goto end'',
      '''',
      '':help'',
      ''echo Available commands:'',
      ''echo   install    - Install dependencies'',
      ''echo   playground - Start the development playground'',
      ''echo   test       - Run tests'',
      ''echo   lint       - Run linters'',
      ''echo.'',
      ''echo Usage: build.bat [command]'',
      ''goto end'',
      '''',
      '':end'']\<close>

definition powershell_content :: string where
  \<open>powershell_content = text_block
     [''# PowerShell script for Agent Starter Pack'',
      '''',
      ''param('',
      ''    [Parameter(Position=0)]'',
      ''    [string]$Command = "help"'',
      '')'',
      '''',
      ''$ScriptDir = Split-Path -Parent $MyInvocation.MyCommand.Path'',
      ''Set-Location $ScriptDir'',
      '''',
      ''switch ($Command) {'',
      ''    "install" {'',
      ''        Write-Host "Installing dependencies..." -ForegroundColor Green'',
      ''        uv sync --dev --extra jupyter --extra streamlit'',
      ''        if (Test-Path "frontend") {'',
      ''            Set-Location frontend'',
      ''            npm install'',
      ''            Set-Location ..'',
      ''        }'',
      ''    }'',
      ''    "playground" {'',
      ''        Write-Host "Starting playground..." -ForegroundColor Green'',
      ''        uv run streamlit run app/main.py'',
      ''    }'',
      ''    "test" {'',
      ''        Write-Host "Running tests..." -ForegroundColor Green'',
      ''        uv run pytest tests/'',
      ''    }'',
      ''    "lint" {'',
      ''        Write-Host "Running linters..." -ForegroundColor Green'',
      ''        uv run ruff check .'',
      ''        uv run mypy .'',
      ''    }'',
      ''    default {'',
      ''        Write-Host "Available commands:" -ForegroundColor Yellow'',
      ''        Write-Host "  install    - Install dependencies"'',
      ''        Write-Host "  playground - Start the development playground"'',
      ''        Write-Host "  test       - Run tests"'',
      ''        Write-Host "  lint       - Run linters"'',
      ''        Write-Host ""'',
      ''        Write-Host "Usage: ./build.ps1 [command]"'',
      ''    }'',
      ''}'']\<close>

text \<open>The body of the \<^verbatim>\<open>try\<close> block: the first failing write ends it.\<close>

definition write_scripts_try :: "world \<Rightarrow> path \<Rightarrow> (exn + unit) \<times> world" where
  "write_scripts_try w project_path =
     (let batch_file = path_join project_path ''build.bat'' in
      case write_text_file w batch_file batch_content of
        (Inl e, w1) \<Rightarrow> (Inl e, w1)
      | (Inr _, w1) \<Rightarrow>
          (let ps_file = path_join project_path ''build.ps1'' in
           case write_text_file w1 ps_file powershell_content of
             (Inl e, w2) \<Rightarrow> (Inl e, w2)
           | (Inr _, w2) \<Rightarrow>
               (Inr (), logging_info ''Created platform-specific build scripts'' w2)))"

text \<open>
  \<^verbatim>\<open>except Exception as e\<close> catches every exception of the model (all are subclasses
  of \<^verbatim>\<open>Exception\<close>) and turns it into one warning record.
\<close>

definition create_platform_specific_scripts :: "world \<Rightarrow> path \<Rightarrow> (exn + unit) \<times> world" where
  "create_platform_specific_scripts w project_path =
     (case write_scripts_try w project_path of
        (Inl e, w1) \<Rightarrow>
          (Inr (), logging_warning
                     (''Failed to create platform-specific scripts: '' @ exc_str w1 e) w1)
      | (Inr u, w1) \<Rightarrow> (Inr u, w1))"

subsection \<open>Two concrete runtimes\<close>

definition posix_world :: world where
  "posix_world =
     \<lparr>platform_system = ''Linux'',
      os_has_add_dll_directory = False,
      os_environ = Map.empty,
      shutil_which = (\<lambda>c. if c = ''gmake'' \<or> c = ''mingw32-make''
                           then Some (''/usr/bin/'' @ c) else None),
      fs_dirs = {[''tmp'', ''proj'']},
      fs_files = [[''tmp'', ''proj'', ''build.bat''] \<mapsto> ''old''],
      fs_denied = {},
      fs_faulty = {},
      process_outcome = (\<lambda>args cwd.
         if cwd = Some [''nowhere''] then Inl (NoSuchFile [''nowhere''])
         else if args = [''sh'', ''-c'', ''exit 3''] then Inr (3, [], ''boom'')
         else if args = [''sh'', ''-c'', ''true''] then Inr (0, ''ok'', [])
         else if args = [''sh'', ''-c'', ''cat blob; exit 3'']
           then Inr (3, [], [CHR 0xFF])
         else if args = [''sh'', ''-c'', ''cat blob''] then Inr (0, [CHR 0xFF], [])
         else Inl (NoSuchFile [''sh''])),
      decode_errors_raise = True,
      spawned = [],
      logged = [],
      exc_str = (\<lambda>e. ''exception'')\<rparr>"

definition windows_world :: world where
  "windows_world =
     posix_world\<lparr>platform_system := ''Windows'',
                 os_has_add_dll_directory := True,
                 os_environ := [''PYTHONUTF8'' \<mapsto> ''0''],
                 decode_errors_raise := False\<rparr>"

section \<open>Properties\<close>

subsection \<open>What \<open>str_contains\<close> decides\<close>

lemma starts_with_iff: "starts_with s sub = (\<exists>q. s = sub @ q)"
  by (induction s sub rule: starts_with.induct) auto

lemma str_contains_iff: "str_contains s sub = (\<exists>p q. s = p @ sub @ q)"
proof (induction s)
  case Nil
  then show ?case by auto
next
  case (Cons x xs)
  show ?case
  proof
    assume "str_contains (x # xs) sub"
    then consider "starts_with (x # xs) sub" | "str_contains xs sub" by auto
    then show "\<exists>p q. x # xs = p @ sub @ q"
    proof cases
      case 1
      then obtain q where "x # xs = [] @ sub @ q" by (auto simp: starts_with_iff)
      then show ?thesis by blast
    next
      case 2
      then obtain p q where "xs = p @ sub @ q" using Cons.IH by blast
      then have "x # xs = (x # p) @ sub @ q" by simp
      then show ?thesis by blast
    qed
  next
    assume "\<exists>p q. x # xs = p @ sub @ q"
    then obtain p q where h: "x # xs = p @ sub @ q" by blast
    show "str_contains (x # xs) sub"
    proof (cases p)
      case Nil
      with h have "starts_with (x # xs) sub" by (auto simp: starts_with_iff)
      then show ?thesis by simp
    next
      case (Cons y p')
      with h have "xs = p' @ sub @ q" by simp
      then have "str_contains xs sub" using Cons.IH by blast
      then show ?thesis by simp
    qed
  qed
qed

subsection \<open>Platform detection\<close>

text \<open>
  C1. For every OS name \<open>s\<close> that \<^verbatim>\<open>platform.system()\<close> may report, exactly one of
  the four platform predicates holds: \<open>is_windows\<close>, \<open>is_macos\<close>, \<open>is_linux\<close>, or the
  classification being \<open>Other\<close>; and \<open>detect_platform\<close> gives Windows, macOS, Linux
  exactly for the names \<^verbatim>\<open>Windows\<close>, \<^verbatim>\<open>Darwin\<close>, \<^verbatim>\<open>Linux\<close>, and Other for every other
  name.
\<close>

theorem detect_platform_exactly_one:
  "length (filter (\<lambda>b. b)
     [is_windows (w\<lparr>platform_system := s\<rparr>), is_macos (w\<lparr>platform_system := s\<rparr>),
      is_linux (w\<lparr>platform_system := s\<rparr>),
      detect_platform (w\<lparr>platform_system := s\<rparr>) = Other]) = 1
   \<and> (detect_platform (w\<lparr>platform_system := s\<rparr>) = Windows) = (s = ''Windows'')
   \<and> (detect_platform (w\<lparr>platform_system := s\<rparr>) = MacOS) = (s = ''Darwin'')
   \<and> (detect_platform (w\<lparr>platform_system := s\<rparr>) = Linux) = (s = ''Linux'')
   \<and> (detect_platform (w\<lparr>platform_system := s\<rparr>) = Other)
       = (s \<noteq> ''Windows'' \<and> s \<noteq> ''Darwin'' \<and> s \<noteq> ''Linux'')"
  by (simp add: detect_platform_def is_windows_def is_macos_def is_linux_def)

theorem detect_platform_exactly_one_witness:
  "detect_platform (posix_world\<lparr>platform_system := ''FreeBSD''\<rparr>) = Other
   \<and> detect_platform (posix_world\<lparr>platform_system := ''Darwin''\<rparr>) = MacOS"
  using detect_platform_exactly_one [where w = posix_world and s = "''FreeBSD''"]
        detect_platform_exactly_one [where w = posix_world and s = "''Darwin''"]
  by simp

subsection \<open>Command shapes\<close>

text \<open>
  C3. For every command string \<open>c\<close>, \<open>get_shell_command\<close> returns the three tokens
  \<^verbatim>\<open>cmd\<close>, \<^verbatim>\<open>/c\<close>, \<open>c\<close> when the OS name is \<^verbatim>\<open>Windows\<close> and \<^verbatim>\<open>sh\<close>, \<^verbatim>\<open>-c\<close>, \<open>c\<close>
  otherwise; the third token is \<open>c\<close> itself, unchanged.
\<close>

theorem get_shell_command_shape:
  "get_shell_command w c =
     (if platform_system w = ''Windows'' then [''cmd'', ''/c'', c] else [''sh'', ''-c'', c])
   \<and> length (get_shell_command w c) = 3 \<and> get_shell_command w c ! 2 = c"
  by (simp add: get_shell_command_def is_windows_def)

theorem get_shell_command_shape_witness:
  "get_shell_command windows_world ''echo hi'' = [''cmd'', ''/c'', ''echo hi'']
   \<and> get_shell_command posix_world ''echo hi'' = [''sh'', ''-c'', ''echo hi'']"
  using get_shell_command_shape [where w = windows_world and c = "''echo hi''"]
        get_shell_command_shape [where w = posix_world and c = "''echo hi''"]
  by (simp add: windows_world_def posix_world_def)

text \<open>
  C4. For every directory string \<open>d\<close>, \<open>get_npm_install_command\<close> returns
  \<^verbatim>\<open>cd d && npm install\<close> when the OS name is \<^verbatim>\<open>Windows\<close> and
  \<^verbatim>\<open>npm --prefix d install\<close> otherwise, with \<open>d\<close> inserted as it is.
\<close>

theorem get_npm_install_command_shape:
  "get_npm_install_command w d =
     (if platform_system w = ''Windows'' then ''cd '' @ d @ '' && npm install''
      else ''npm --prefix '' @ d @ '' install'')"
  by (simp add: get_npm_install_command_def is_windows_def)

theorem get_npm_install_command_shape_witness:
  "get_npm_install_command windows_world ''frontend'' = ''cd frontend && npm install''
   \<and> get_npm_install_command posix_world ''frontend'' = ''npm --prefix frontend install''"
  using get_npm_install_command_shape [where w = windows_world and d = "''frontend''"]
        get_npm_install_command_shape [where w = posix_world and d = "''frontend''"]
  by (simp add: windows_world_def posix_world_def)

subsection \<open>Finding make\<close>

lemma get_make_command_loop_Some:
  "(get_make_command_loop w cs = Some c) =
     (\<exists>pre post. cs = pre @ c # post \<and> check_command_exists w c
        \<and> (\<forall>x\<in>set pre. \<not> check_command_exists w x))"
proof (induction cs)
  case Nil
  then show ?case by simp
next
  case (Cons a cs)
  show ?case
  proof (cases "check_command_exists w a")
    case True
    have "(a = c) = (\<exists>pre post. a # cs = pre @ c # post \<and> check_command_exists w c
        \<and> (\<forall>x\<in>set pre. \<not> check_command_exists w x))"
    proof
      assume "a = c"
      then have "a # cs = [] @ c # cs \<and> check_command_exists w c
        \<and> (\<forall>x\<in>set []. \<not> check_command_exists w x)" using True by simp
      then show "\<exists>pre post. a # cs = pre @ c # post \<and> check_command_exists w c
        \<and> (\<forall>x\<in>set pre. \<not> check_command_exists w x)" by blast
    next
      assume "\<exists>pre post. a # cs = pre @ c # post \<and> check_command_exists w c
        \<and> (\<forall>x\<in>set pre. \<not> check_command_exists w x)"
      then obtain pre post where h: "a # cs = pre @ c # post"
        "\<forall>x\<in>set pre. \<not> check_command_exists w x" by blast
      show "a = c"
      proof (cases pre)
        case Nil
        with h show ?thesis by simp
      next
        case (Cons b pre')
        with h True show ?thesis by simp
      qed
    qed
    with True show ?thesis by simp
  next
    case False
    have "(\<exists>pre post. cs = pre @ c # post \<and> check_command_exists w c
        \<and> (\<forall>x\<in>set pre. \<not> check_command_exists w x))
      = (\<exists>pre post. a # cs = pre @ c # post \<and> check_command_exists w c
        \<and> (\<forall>x\<in>set pre. \<not> check_command_exists w x))"
    proof
      assume "\<exists>pre post. cs = pre @ c # post \<and> check_command_exists w c
        \<and> (\<forall>x\<in>set pre. \<not> check_command_exists w x)"
      then obtain pre post where h: "cs = pre @ c # post" "check_command_exists w c"
        "\<forall>x\<in>set pre. \<not> check_command_exists w x" by blast
      then have "a # cs = (a # pre) @ c # post \<and> check_command_exists w c
        \<and> (\<forall>x\<in>set (a # pre). \<not> check_command_exists w x)" using False by simp
      then show "\<exists>pre post. a # cs = pre @ c # post \<and> check_command_exists w c
        \<and> (\<forall>x\<in>set pre. \<not> check_command_exists w x)" by blast
    next
      assume "\<exists>pre post. a # cs = pre @ c # post \<and> check_command_exists w c
        \<and> (\<forall>x\<in>set pre. \<not> check_command_exists w x)"
      then obtain pre post where h: "a # cs = pre @ c # post" "check_command_exists w c"
        "\<forall>x\<in>set pre. \<not> check_command_exists w x" by blast
      show "\<exists>pre post. cs = pre @ c # post \<and> check_command_exists w c
        \<and> (\<forall>x\<in>set pre. \<not> check_command_exists w x)"
      proof (cases pre)
        case Nil
        with h False show ?thesis by simp
      next
        case (Cons b pre')
        with h have "cs = pre' @ c # post \<and> check_command_exists w c
          \<and> (\<forall>x\<in>set pre'. \<not> check_command_exists w x)" by simp
        then show ?thesis by blast
      qed
    qed
    with False Cons.IH show ?thesis by simp
  qed
qed

lemma get_make_command_loop_None:
  "(get_make_command_loop w cs = None) = (\<forall>x\<in>set cs. \<not> check_command_exists w x)"
  by (induction cs) auto

text \<open>
  C5. For every PATH resolution, \<open>get_make_command\<close> returns the first of
  \<^verbatim>\<open>make\<close>, \<^verbatim>\<open>gmake\<close>, \<^verbatim>\<open>mingw32-make\<close>, in that order, that resolves: it returns
  \<open>c\<close> exactly when \<open>c\<close> is a candidate that resolves and no candidate before it does,
  and it returns nothing exactly when none of the three resolves.
\<close>

theorem get_make_command_first_available:
  "make_commands = [''make'', ''gmake'', ''mingw32-make'']
   \<and> (get_make_command w = Some c) =
       (\<exists>pre post. make_commands = pre @ c # post \<and> shutil_which w c \<noteq> None
          \<and> (\<forall>x\<in>set pre. shutil_which w x = None))
   \<and> (get_make_command w = None) = (\<forall>x\<in>set make_commands. shutil_which w x = None)
   \<and> get_make_command w =
       (if shutil_which w ''make'' \<noteq> None then Some ''make''
        else if shutil_which w ''gmake'' \<noteq> None then Some ''gmake''
        else if shutil_which w ''mingw32-make'' \<noteq> None then Some ''mingw32-make''
        else None)"
proof -
  have a: "make_commands = [''make'', ''gmake'', ''mingw32-make'']"
    by (simp add: make_commands_def)
  have b: "(get_make_command w = Some c) =
       (\<exists>pre post. make_commands = pre @ c # post \<and> shutil_which w c \<noteq> None
          \<and> (\<forall>x\<in>set pre. shutil_which w x = None))"
    unfolding get_make_command_def get_make_command_loop_Some
    by (simp add: check_command_exists_def)
  have c: "(get_make_command w = None) = (\<forall>x\<in>set make_commands. shutil_which w x = None)"
    unfolding get_make_command_def get_make_command_loop_None
    by (simp add: check_command_exists_def)
  have d: "get_make_command w =
       (if shutil_which w ''make'' \<noteq> None then Some ''make''
        else if shutil_which w ''gmake'' \<noteq> None then Some ''gmake''
        else if shutil_which w ''mingw32-make'' \<noteq> None then Some ''mingw32-make''
        else None)"
    by (simp add: get_make_command_def make_commands_def check_command_exists_def)
  from a b c d show ?thesis by blast
qed

theorem get_make_command_first_available_witness:
  "get_make_command posix_world = Some ''gmake''
   \<and> get_make_command (posix_world\<lparr>shutil_which := (\<lambda>c. None)\<rparr>) = None"
  using get_make_command_first_available [where w = posix_world and c = "''gmake''"]
        get_make_command_first_available [where w = "posix_world\<lparr>shutil_which := (\<lambda>c. None)\<rparr>" and c = "''gmake''"]
  by (simp add: posix_world_def)

subsection \<open>The make advisory\<close>

text \<open>
  C9. For every OS name other than \<^verbatim>\<open>Windows\<close> and \<^verbatim>\<open>Darwin\<close>, unrecognised names
  included, \<open>suggest_make_installation\<close> returns the Linux instructions: the text
  below, line for line the \<^verbatim>\<open>else\<close> branch of the source, which is also what it
  returns when the OS name is \<^verbatim>\<open>Linux\<close>.
\<close>

theorem suggest_make_installation_other_is_linux:
  \<open>platform_system w \<noteq> ''Windows'' \<Longrightarrow> platform_system w \<noteq> ''Darwin'' \<Longrightarrow>
     suggest_make_installation w =
        ''\<newline>'' @
        ''Make is not available. To install make on Linux:\<newline>'' @
        ''\<newline>'' @
        ''1. Ubuntu/Debian:\<newline>'' @
        ''   sudo apt update && sudo apt install build-essential\<newline>'' @
        ''\<newline>'' @
        ''2. CentOS/RHEL/Fedora:\<newline>'' @
        ''   sudo yum install make\<newline>'' @
        ''   # or\<newline>'' @
        ''   sudo dnf install make\<newline>'' @
        ''\<newline>'' @
        ''3. Arch Linux:\<newline>'' @
        ''   sudo pacman -S make\<newline>''
     \<and> suggest_make_installation w = suggest_make_installation (w\<lparr>platform_system := ''Linux''\<rparr>)
     \<and> str_contains (suggest_make_installation w) ''To install make on Linux''\<close>
  by (simp add: suggest_make_installation_def is_windows_def is_macos_def text_block_def)

theorem suggest_make_installation_other_is_linux_witness:
  \<open>suggest_make_installation (posix_world\<lparr>platform_system := ''FreeBSD''\<rparr>) =
        ''\<newline>'' @
        ''Make is not available. To install make on Linux:\<newline>'' @
        ''\<newline>'' @
        ''1. Ubuntu/Debian:\<newline>'' @
        ''   sudo apt update && sudo apt install build-essential\<newline>'' @
        ''\<newline>'' @
        ''2. CentOS/RHEL/Fedora:\<newline>'' @
        ''   sudo yum install make\<newline>'' @
        ''   # or\<newline>'' @
        ''   sudo dnf install make\<newline>'' @
        ''\<newline>'' @
        ''3. Arch Linux:\<newline>'' @
        ''   sudo pacman -S make\<newline>''
   \<and> suggest_make_installation (posix_world\<lparr>platform_system := ''FreeBSD''\<rparr>)
       = suggest_make_installation posix_world
   \<and> str_contains (suggest_make_installation (posix_world\<lparr>platform_system := ''FreeBSD''\<rparr>))
        ''To install make on Linux''\<close>
proof -
  have h1: "platform_system (posix_world\<lparr>platform_system := ''FreeBSD''\<rparr>) \<noteq> ''Windows''"
    by simp
  have h2: "platform_system (posix_world\<lparr>platform_system := ''FreeBSD''\<rparr>) \<noteq> ''Darwin''"
    by simp
  have e: "posix_world\<lparr>platform_system := ''FreeBSD'', platform_system := ''Linux''\<rparr>
             = posix_world"
    by (simp add: posix_world_def)
  from suggest_make_installation_other_is_linux [OF h1 h2] show ?thesis
    unfolding e .
qed

subsection \<open>UTF-8 setup\<close>

lemma environ_setdefault_environ:
  "os_environ (environ_setdefault k v w) =
     (case os_environ w k of Some _ \<Rightarrow> os_environ w | None \<Rightarrow> (os_environ w)(k \<mapsto> v))"
  by (simp add: environ_setdefault_def split: option.splits)

lemma environ_setdefault_idem:
  "environ_setdefault k v (environ_setdefault k v w) = environ_setdefault k v w"
  by (simp add: environ_setdefault_def split: option.splits)

lemma environ_setdefault_other:
  "platform_system (environ_setdefault k v w) = platform_system w"
  "os_has_add_dll_directory (environ_setdefault k v w) = os_has_add_dll_directory w"
  by (simp_all add: environ_setdefault_def split: option.splits)

lemma environ_setdefault_commute_idem:
  "environ_setdefault k v (environ_setdefault k' v' (environ_setdefault k v w))
     = environ_setdefault k' v' (environ_setdefault k v w)"
  by (auto simp add: environ_setdefault_def split: option.splits)

text \<open>
  C6. \<open>ensure_utf8_encoding\<close> is idempotent, and it sets only what is absent: a
  variable that has a value keeps it; a variable whose value changes was unset, the
  OS name is \<^verbatim>\<open>Windows\<close>, and the variable is \<^verbatim>\<open>PYTHONIOENCODING\<close> (set to
  \<^verbatim>\<open>utf-8\<close>) or \<^verbatim>\<open>PYTHONUTF8\<close> (set to \<^verbatim>\<open>1\<close>).
\<close>

theorem ensure_utf8_encoding_idempotent_set_if_absent:
  "ensure_utf8_encoding (ensure_utf8_encoding w) = ensure_utf8_encoding w
   \<and> (os_environ w k = Some v \<longrightarrow> os_environ (ensure_utf8_encoding w) k = Some v)
   \<and> (os_environ (ensure_utf8_encoding w) k \<noteq> os_environ w k \<longrightarrow>
        platform_system w = ''Windows'' \<and> os_environ w k = None
        \<and> (k = ''PYTHONIOENCODING'' \<and> os_environ (ensure_utf8_encoding w) k = Some ''utf-8''
           \<or> k = ''PYTHONUTF8'' \<and> os_environ (ensure_utf8_encoding w) k = Some ''1''))
   \<and> (platform_system w = ''Windows'' \<and> os_environ w ''PYTHONIOENCODING'' = None \<longrightarrow>
        os_environ (ensure_utf8_encoding w) ''PYTHONIOENCODING'' = Some ''utf-8'')"
proof -
  have a: "ensure_utf8_encoding (ensure_utf8_encoding w) = ensure_utf8_encoding w"
    by (simp add: ensure_utf8_encoding_def Let_def is_windows_def environ_setdefault_other
          environ_setdefault_idem environ_setdefault_commute_idem)
  have b: "os_environ w k = Some v \<longrightarrow> os_environ (ensure_utf8_encoding w) k = Some v"
    by (auto simp add: ensure_utf8_encoding_def Let_def environ_setdefault_environ
          split: option.splits)
  have c: "os_environ (ensure_utf8_encoding w) k \<noteq> os_environ w k \<longrightarrow>
        platform_system w = ''Windows'' \<and> os_environ w k = None
        \<and> (k = ''PYTHONIOENCODING'' \<and> os_environ (ensure_utf8_encoding w) k = Some ''utf-8''
           \<or> k = ''PYTHONUTF8'' \<and> os_environ (ensure_utf8_encoding w) k = Some ''1'')"
    by (auto simp add: ensure_utf8_encoding_def Let_def environ_setdefault_environ
          is_windows_def split: option.splits if_splits)
  have d: "platform_system w = ''Windows'' \<and> os_environ w ''PYTHONIOENCODING'' = None \<longrightarrow>
        os_environ (ensure_utf8_encoding w) ''PYTHONIOENCODING'' = Some ''utf-8''"
    by (auto simp add: ensure_utf8_encoding_def Let_def environ_setdefault_environ
          is_windows_def split: option.splits if_splits)
  from a b c d show ?thesis by blast
qed

theorem ensure_utf8_encoding_idempotent_set_if_absent_witness:
  "os_environ windows_world ''PYTHONUTF8'' = Some ''0''
   \<and> os_environ (ensure_utf8_encoding windows_world) ''PYTHONUTF8'' = Some ''0''
   \<and> os_environ windows_world ''PYTHONIOENCODING'' = None
   \<and> os_environ (ensure_utf8_encoding windows_world) ''PYTHONIOENCODING'' = Some ''utf-8''"
  using ensure_utf8_encoding_idempotent_set_if_absent
          [where w = windows_world and k = "''PYTHONUTF8''" and v = "''0''"]
        ensure_utf8_encoding_idempotent_set_if_absent
          [where w = windows_world and k = "''PYTHONIOENCODING''" and v = "''0''"]
  by (simp add: windows_world_def posix_world_def)

subsection \<open>Running a command\<close>

lemma subprocess_run_spawned:
  "spawned (snd (subprocess_run w args cwd cap chk)) = spawned w @ [args]"
  by (simp add: subprocess_run_def Let_def split: sum.splits prod.splits)

lemma subprocess_run_not_started:
  "process_outcome w args cwd = Inl f \<Longrightarrow>
     fst (subprocess_run w args cwd cap chk) = Inl (spawn_exn f)"
  by (simp add: subprocess_run_def Let_def)

lemma subprocess_run_decoded:
  "process_outcome w args cwd = Inr (rc, out, err) \<Longrightarrow>
   (cap \<longrightarrow> utf8_valid out \<and> utf8_valid err) \<Longrightarrow>
     fst (subprocess_run w args cwd cap chk) =
       completed args rc (if cap then Some (translate_newlines out) else None)
         (if cap then Some (translate_newlines err) else None) chk"
  by (simp add: subprocess_run_def Let_def)

lemma subprocess_run_undecodable:
  "process_outcome w args cwd = Inr (rc, out, err) \<Longrightarrow> cap \<Longrightarrow>
   \<not> (utf8_valid out \<and> utf8_valid err) \<Longrightarrow> decode_errors_raise w \<Longrightarrow>
     fst (subprocess_run w args cwd cap chk) =
       Inl (UnicodeDecodeError (if utf8_valid out then err else out))"
  by (auto simp add: subprocess_run_def Let_def)

lemma completed_raises_iff:
  "(\<exists>r c out err. completed args rc so se chk = Inl (CalledProcessError r c out err))
     = (chk \<and> rc \<noteq> 0)"
  by (simp add: completed_def)

lemma subprocess_run_raises_only_if:
  "fst (subprocess_run w args cwd cap chk) = Inl (CalledProcessError r c so se) \<Longrightarrow>
     chk \<and> r \<noteq> 0 \<and> c = args \<and> (\<exists>out err. process_outcome w args cwd = Inr (r, out, err))"
  by (auto simp add: subprocess_run_def Let_def completed_def
        split: sum.splits prod.splits if_splits elim: spawn_exn.elims)

lemma run_fst:
  "fst (run_cross_platform_command w command cwd cap chk)
     = fst (subprocess_run w (get_shell_command w command) cwd cap chk)"
  by (simp add: run_cross_platform_command_def Let_def logging_error_def
        split: prod.splits sum.splits exn.splits)

lemma run_spawned:
  "spawned (snd (run_cross_platform_command w command cwd cap chk))
     = spawned (snd (subprocess_run w (get_shell_command w command) cwd cap chk))"
  by (simp add: run_cross_platform_command_def Let_def logging_error_def
        split: prod.splits sum.splits exn.splits)

text \<open>
  C2, as the code has it. \<open>run_cross_platform_command\<close> raises \<open>CalledProcessError\<close>
  only if \<open>check\<close> is set and the spawned process exits with a non-zero code. When
  the process starts and, with \<open>capture_output\<close> on, both captured streams are valid
  UTF-8, it raises \<open>CalledProcessError\<close> if and only if \<open>check\<close> is set and the exit
  code is non-zero, and otherwise returns the completed process with its streams and
  exit code. The error carries the exit code, the tokens of the shell invocation,
  whose last token is the original command text, and the streams as captured, decoded
  and newline-translated (absent when \<open>capture_output\<close> is off); it reaches the caller
  as it was raised. A process that cannot be started raises the error of the spawn;
  where the runtime raises on decoding, a captured stream that is not valid UTF-8
  raises \<open>UnicodeDecodeError\<close> for the first such stream, stdout before stderr. In
  every case the spawner is called exactly once: nothing is retried.
\<close>

theorem run_cross_platform_command_outcomes:
  "(fst (run_cross_platform_command w command cwd cap chk)
        = Inl (CalledProcessError code toks so se) \<longrightarrow>
      chk \<and> code \<noteq> 0 \<and> toks = get_shell_command w command
      \<and> (\<exists>out err. process_outcome w (get_shell_command w command) cwd
                         = Inr (code, out, err)))
   \<and> (process_outcome w (get_shell_command w command) cwd = Inr (rc, out, err)
        \<and> (cap \<longrightarrow> utf8_valid out \<and> utf8_valid err) \<longrightarrow>
        ((\<exists>code toks so se. fst (run_cross_platform_command w command cwd cap chk)
              = Inl (CalledProcessError code toks so se)) = (chk \<and> rc \<noteq> 0))
        \<and> fst (run_cross_platform_command w command cwd cap chk) =
          (if chk \<and> rc \<noteq> 0
           then Inl (CalledProcessError rc (get_shell_command w command)
                       (if cap then Some (translate_newlines out) else None)
                       (if cap then Some (translate_newlines err) else None))
           else Inr \<lparr>cp_args = get_shell_command w command, cp_returncode = rc,
                     cp_stdout = (if cap then Some (translate_newlines out) else None),
                     cp_stderr = (if cap then Some (translate_newlines err) else None)\<rparr>))
   \<and> (process_outcome w (get_shell_command w command) cwd = Inr (rc, out, err)
        \<and> cap \<and> \<not> (utf8_valid out \<and> utf8_valid err) \<and> decode_errors_raise w \<longrightarrow>
        fst (run_cross_platform_command w command cwd cap chk)
          = Inl (UnicodeDecodeError (if utf8_valid out then err else out)))
   \<and> (process_outcome w (get_shell_command w command) cwd = Inl f \<longrightarrow>
        fst (run_cross_platform_command w command cwd cap chk) = Inl (spawn_exn f))
   \<and> last (get_shell_command w command) = command
   \<and> spawned (snd (run_cross_platform_command w command cwd cap chk))
        = spawned w @ [get_shell_command w command]"
proof -
  let ?args = "get_shell_command w command"
  let ?r = "fst (run_cross_platform_command w command cwd cap chk)"
  have a: "?r = Inl (CalledProcessError code toks so se) \<longrightarrow>
      chk \<and> code \<noteq> 0 \<and> toks = ?args
      \<and> (\<exists>out err. process_outcome w ?args cwd = Inr (code, out, err))"
    unfolding run_fst using subprocess_run_raises_only_if by blast
  have b: "process_outcome w ?args cwd = Inr (rc, out, err)
        \<and> (cap \<longrightarrow> utf8_valid out \<and> utf8_valid err) \<longrightarrow>
        ((\<exists>code toks so se. ?r = Inl (CalledProcessError code toks so se)) = (chk \<and> rc \<noteq> 0))
        \<and> ?r =
          (if chk \<and> rc \<noteq> 0
           then Inl (CalledProcessError rc ?args
                       (if cap then Some (translate_newlines out) else None)
                       (if cap then Some (translate_newlines err) else None))
           else Inr \<lparr>cp_args = ?args, cp_returncode = rc,
                     cp_stdout = (if cap then Some (translate_newlines out) else None),
                     cp_stderr = (if cap then Some (translate_newlines err) else None)\<rparr>)"
  proof
    assume h: "process_outcome w ?args cwd = Inr (rc, out, err)
        \<and> (cap \<longrightarrow> utf8_valid out \<and> utf8_valid err)"
    then have "?r = completed ?args rc (if cap then Some (translate_newlines out) else None)
         (if cap then Some (translate_newlines err) else None) chk"
      unfolding run_fst by (simp add: subprocess_run_decoded)
    then show "((\<exists>code toks so se. ?r = Inl (CalledProcessError code toks so se))
                  = (chk \<and> rc \<noteq> 0))
        \<and> ?r =
          (if chk \<and> rc \<noteq> 0
           then Inl (CalledProcessError rc ?args
                       (if cap then Some (translate_newlines out) else None)
                       (if cap then Some (translate_newlines err) else None))
           else Inr \<lparr>cp_args = ?args, cp_returncode = rc,
                     cp_stdout = (if cap then Some (translate_newlines out) else None),
                     cp_stderr = (if cap then Some (translate_newlines err) else None)\<rparr>)"
      by (simp add: completed_def)
  qed
  have c: "process_outcome w ?args cwd = Inr (rc, out, err)
        \<and> cap \<and> \<not> (utf8_valid out \<and> utf8_valid err) \<and> decode_errors_raise w \<longrightarrow>
        ?r = Inl (UnicodeDecodeError (if utf8_valid out then err else out))"
    unfolding run_fst using subprocess_run_undecodable by blast
  have d: "process_outcome w ?args cwd = Inl f \<longrightarrow> ?r = Inl (spawn_exn f)"
    unfolding run_fst using subprocess_run_not_started by blast
  have e: "last ?args = command"
    by (simp add: get_shell_command_def)
  have g: "spawned (snd (run_cross_platform_command w command cwd cap chk))
        = spawned w @ [?args]"
    by (simp add: run_spawned subprocess_run_spawned)
  from a b c d e g show ?thesis by blast
qed

theorem run_cross_platform_command_outcomes_witness:
  "fst (run_cross_platform_command posix_world ''exit 3'' None True True)
     = Inl (CalledProcessError 3 [''sh'', ''-c'', ''exit 3''] (Some []) (Some ''boom''))
   \<and> fst (run_cross_platform_command posix_world ''exit 3'' None True False)
     = Inr \<lparr>cp_args = [''sh'', ''-c'', ''exit 3''], cp_returncode = 3,
            cp_stdout = Some [], cp_stderr = Some ''boom''\<rparr>"
proof -
  have g: "get_shell_command posix_world ''exit 3'' = [''sh'', ''-c'', ''exit 3'']"
    by (simp add: get_shell_command_def is_windows_def posix_world_def)
  have h: "process_outcome posix_world (get_shell_command posix_world ''exit 3'') None
             = Inr (3, [], ''boom'')"
    unfolding g by (simp add: posix_world_def)
  have v: "utf8_valid []" "utf8_valid ''boom''"
    by (simp_all add: in_range_def)
  have t: "translate_newlines [] = []" "translate_newlines ''boom'' = ''boom''"
    by (simp_all add: translate_newlines_def replace_cr_def)
  from run_cross_platform_command_outcomes
         [where w = posix_world and command = "''exit 3''" and cwd = None
            and rc = 3 and out = "[]" and err = "''boom''" and cap = True and chk = True
            and code = 0 and toks = "[]" and so = None and se = None
            and f = "NoSuchFile []"]
       run_cross_platform_command_outcomes
         [where w = posix_world and command = "''exit 3''" and cwd = None
            and rc = 3 and out = "[]" and err = "''boom''" and cap = True and chk = False
            and code = 0 and toks = "[]" and so = None and se = None
            and f = "NoSuchFile []"]
       h v
  show ?thesis by (simp add: g t)
qed

text \<open>
  C2 as the spec states it fails on the code. With \<open>check\<close> set, output captured and
  a process that exits with code 3 after writing the byte \<^verbatim>\<open>0xFF\<close> to stderr, the call
  raises \<open>UnicodeDecodeError\<close>, not \<open>CalledProcessError\<close>. With \<open>check\<close> off and a
  process that exits with code 0 after writing that byte to stdout, the call raises
  \<open>UnicodeDecodeError\<close> and returns no result; with \<open>check\<close> off and a working
  directory that does not exist, it raises \<open>FileNotFoundError\<close> and returns no result.
\<close>

theorem run_cross_platform_command_undecodable_counterexample:
  "process_outcome posix_world (get_shell_command posix_world ''cat blob; exit 3'') None
     = Inr (3, [], [CHR 0xFF])
   \<and> fst (run_cross_platform_command posix_world ''cat blob; exit 3'' None True True)
     = Inl (UnicodeDecodeError [CHR 0xFF])
   \<and> process_outcome posix_world (get_shell_command posix_world ''cat blob'') None
     = Inr (0, [CHR 0xFF], [])
   \<and> fst (run_cross_platform_command posix_world ''cat blob'' None True False)
     = Inl (UnicodeDecodeError [CHR 0xFF])
   \<and> fst (run_cross_platform_command posix_world ''true'' (Some [''nowhere'']) True False)
     = Inl (FileNotFoundError [''nowhere''])"
  by (simp add: run_cross_platform_command_def subprocess_run_def Let_def
        get_shell_command_def is_windows_def posix_world_def in_range_def)

subsection \<open>Build scripts\<close>

lemma write_text_file_ok:
  "can_write w p \<Longrightarrow>
     write_text_file w p content = (Inr (), w\<lparr>fs_files := (fs_files w)(p \<mapsto> content)\<rparr>)"
  by (simp add: write_text_file_def can_write_def)

lemma write_text_file_fails:
  "\<not> can_write w p \<Longrightarrow> \<exists>e. fst (write_text_file w p content) = Inl e"
  by (auto simp add: write_text_file_def can_write_def)

lemma write_text_file_raises_iff:
  "(\<exists>e w1. write_text_file w p content = (Inl e, w1)) = (\<not> can_write w p)"
  by (auto simp add: write_text_file_def can_write_def)

lemma write_text_file_frame:
  "fs_dirs (snd (write_text_file w p content)) = fs_dirs w"
  "fs_denied (snd (write_text_file w p content)) = fs_denied w"
  "fs_faulty (snd (write_text_file w p content)) = fs_faulty w"
  "logged (snd (write_text_file w p content)) = logged w"
  "exc_str (snd (write_text_file w p content)) = exc_str w"
  by (simp_all add: write_text_file_def)

lemma can_write_after_write:
  "can_write (snd (write_text_file w p content)) q = can_write w q"
  by (simp add: can_write_def write_text_file_frame)

lemma script_paths_distinct:
  "path_join p ''build.bat'' \<noteq> path_join p ''build.ps1''"
  by (simp add: path_join_def)

lemma write_scripts_try_ok:
  assumes "can_write w (path_join p ''build.bat'')" "can_write w (path_join p ''build.ps1'')"
  shows "write_scripts_try w p =
     (Inr (), w\<lparr>fs_files := (fs_files w)(path_join p ''build.bat'' \<mapsto> batch_content,
                                          path_join p ''build.ps1'' \<mapsto> powershell_content),
                logged := logged w @ [LogInfo ''Created platform-specific build scripts'']\<rparr>)"
proof -
  let ?w1 = "w\<lparr>fs_files := (fs_files w)(path_join p ''build.bat'' \<mapsto> batch_content)\<rparr>"
  have 1: "write_text_file w (path_join p ''build.bat'') batch_content = (Inr (), ?w1)"
    using assms(1) by (rule write_text_file_ok)
  have "can_write ?w1 (path_join p ''build.ps1'')"
    using assms(2) by (simp add: can_write_def)
  then have 2: "write_text_file ?w1 (path_join p ''build.ps1'') powershell_content =
      (Inr (), ?w1\<lparr>fs_files := (fs_files ?w1)(path_join p ''build.ps1'' \<mapsto> powershell_content)\<rparr>)"
    by (rule write_text_file_ok)
  show ?thesis
    unfolding write_scripts_try_def Let_def 1 by (simp add: 2 logging_info_def)
qed

lemma write_scripts_try_raises_iff:
  "(\<exists>e w1. write_scripts_try w p = (Inl e, w1))
     = (\<not> (can_write w (path_join p ''build.bat'') \<and> can_write w (path_join p ''build.ps1'')))"
proof (cases "can_write w (path_join p ''build.bat'')")
  case False
  then obtain e where "fst (write_text_file w (path_join p ''build.bat'') batch_content) = Inl e"
    using write_text_file_fails by blast
  then have "\<exists>w1. write_scripts_try w p = (Inl e, w1)"
    by (cases "write_text_file w (path_join p ''build.bat'') batch_content")
       (simp add: write_scripts_try_def Let_def)
  with False show ?thesis by blast
next
  case True
  let ?w1 = "w\<lparr>fs_files := (fs_files w)(path_join p ''build.bat'' \<mapsto> batch_content)\<rparr>"
  have 1: "write_text_file w (path_join p ''build.bat'') batch_content = (Inr (), ?w1)"
    using True by (rule write_text_file_ok)
  have cw: "can_write ?w1 (path_join p ''build.ps1'') = can_write w (path_join p ''build.ps1'')"
    by (simp add: can_write_def)
  show ?thesis
  proof (cases "can_write w (path_join p ''build.ps1'')")
    case False
    then obtain e where
      "fst (write_text_file ?w1 (path_join p ''build.ps1'') powershell_content) = Inl e"
      using write_text_file_fails cw by blast
    then have "\<exists>w2. write_scripts_try w p = (Inl e, w2)"
      unfolding write_scripts_try_def Let_def 1
      by (cases "write_text_file ?w1 (path_join p ''build.ps1'') powershell_content") simp
    with False show ?thesis by blast
  next
    case ps_ok: True
    with \<open>can_write w (path_join p ''build.bat'')\<close> show ?thesis
      by (simp add: write_scripts_try_ok)
  qed
qed

lemma write_scripts_try_logged_on_failure:
  "write_scripts_try w p = (Inl e, w1) \<Longrightarrow> logged w1 = logged w \<and> exc_str w1 = exc_str w"
  unfolding write_scripts_try_def Let_def
  by (auto split: prod.splits sum.splits simp: write_text_file_def split: if_splits)

lemma create_ok:
  assumes "can_write w (path_join p ''build.bat'')" "can_write w (path_join p ''build.ps1'')"
  shows "create_platform_specific_scripts w p =
     (Inr (), w\<lparr>fs_files := (fs_files w)(path_join p ''build.bat'' \<mapsto> batch_content,
                                          path_join p ''build.ps1'' \<mapsto> powershell_content),
                logged := logged w @ [LogInfo ''Created platform-specific build scripts'']\<rparr>)"
  by (simp add: create_platform_specific_scripts_def write_scripts_try_ok [OF assms])




lemma create_platform_independent:
  "create_platform_specific_scripts (w\<lparr>platform_system := s\<rparr>) p =
     (fst (create_platform_specific_scripts w p),
      (snd (create_platform_specific_scripts w p))\<lparr>platform_system := s\<rparr>)"
  by (auto simp add: create_platform_specific_scripts_def write_scripts_try_def Let_def
        write_text_file_def logging_info_def logging_warning_def
        split: prod.splits sum.splits if_splits)

text \<open>
  C7. \<open>create_platform_specific_scripts\<close> returns normally for every runtime and
  every target directory. When a write fails, that is when the \<^verbatim>\<open>try\<close> block raises
  \<open>e\<close>, the exception is not propagated: the one effect beyond the block's own is a
  warning record with the text of \<open>e\<close>. A write fails exactly when one of the two
  script files cannot be written.
\<close>

theorem create_platform_specific_scripts_never_raises:
  "fst (create_platform_specific_scripts w p) = Inr ()
   \<and> (write_scripts_try w p = (Inl e, wa) \<longrightarrow>
        create_platform_specific_scripts w p =
          (Inr (), wa\<lparr>logged := logged w @
             [LogWarning (''Failed to create platform-specific scripts: '' @ exc_str w e)]\<rparr>))
   \<and> (\<not> (can_write w (path_join p ''build.bat'') \<and> can_write w (path_join p ''build.ps1'')) \<longrightarrow>
        (\<exists>e. logged (snd (create_platform_specific_scripts w p)) = logged w @
             [LogWarning (''Failed to create platform-specific scripts: '' @ exc_str w e)]))"
proof -
  have a: "fst (create_platform_specific_scripts w p) = Inr ()"
    by (simp add: create_platform_specific_scripts_def split: prod.splits sum.splits)
  have b: "write_scripts_try w p = (Inl e, wa) \<longrightarrow>
        create_platform_specific_scripts w p =
          (Inr (), wa\<lparr>logged := logged w @
             [LogWarning (''Failed to create platform-specific scripts: '' @ exc_str w e)]\<rparr>)"
  proof
    assume h: "write_scripts_try w p = (Inl e, wa)"
    then have "logged wa = logged w \<and> exc_str wa = exc_str w"
      by (rule write_scripts_try_logged_on_failure)
    with h show "create_platform_specific_scripts w p =
          (Inr (), wa\<lparr>logged := logged w @
             [LogWarning (''Failed to create platform-specific scripts: '' @ exc_str w e)]\<rparr>)"
      by (simp add: create_platform_specific_scripts_def logging_warning_def)
  qed
  have c: "\<not> (can_write w (path_join p ''build.bat'') \<and> can_write w (path_join p ''build.ps1'')) \<longrightarrow>
        (\<exists>e. logged (snd (create_platform_specific_scripts w p)) = logged w @
             [LogWarning (''Failed to create platform-specific scripts: '' @ exc_str w e)])"
  proof
    assume "\<not> (can_write w (path_join p ''build.bat'') \<and> can_write w (path_join p ''build.ps1''))"
    then obtain e' wq where h: "write_scripts_try w p = (Inl e', wq)"
      using write_scripts_try_raises_iff [of w p] by blast
    then have "logged wq = logged w \<and> exc_str wq = exc_str w"
      by (rule write_scripts_try_logged_on_failure)
    with h have "logged (snd (create_platform_specific_scripts w p)) = logged w @
             [LogWarning (''Failed to create platform-specific scripts: '' @ exc_str w e')]"
      by (simp add: create_platform_specific_scripts_def logging_warning_def)
    then show "\<exists>e. logged (snd (create_platform_specific_scripts w p)) = logged w @
             [LogWarning (''Failed to create platform-specific scripts: '' @ exc_str w e)]"
      by blast
  qed
  from a b c show ?thesis by blast
qed

theorem create_platform_specific_scripts_never_raises_witness:
  "\<not> can_write posix_world (path_join [''missing''] ''build.bat'')
   \<and> create_platform_specific_scripts posix_world [''missing''] =
       (Inr (), posix_world\<lparr>logged :=
          [LogWarning ''Failed to create platform-specific scripts: exception'']\<rparr>)"
proof -
  have n: "\<not> can_write posix_world (path_join [''missing''] ''build.bat'')"
    by (simp add: can_write_def path_join_def posix_world_def)
  have h: "write_scripts_try posix_world [''missing'']
             = (Inl (FileNotFoundError [''missing'', ''build.bat'']), posix_world)"
    by (simp add: write_scripts_try_def write_text_file_def path_join_def posix_world_def)
  have l: "logged posix_world = []" "exc_str posix_world = (\<lambda>e. ''exception'')"
    by (simp_all add: posix_world_def)
  from create_platform_specific_scripts_never_raises
         [where w = posix_world and p = "[''missing'']" and wa = posix_world
            and e = "FileNotFoundError [''missing'', ''build.bat'']"] h n
  show ?thesis by (simp add: l)
qed




text \<open>
  C10. \<open>create_platform_specific_scripts\<close> does not look at the platform: run under
  any OS name it gives the same result and the same effects. The two script bodies are
  the constants \<open>batch_content\<close> and \<open>powershell_content\<close>: whatever the runtime and
  the target directory, the files written hold these same two texts; the directory
  only decides where they are written.
\<close>

theorem create_platform_specific_scripts_fixed_content:
  "create_platform_specific_scripts (w\<lparr>platform_system := s\<rparr>) p =
     (fst (create_platform_specific_scripts w p),
      (snd (create_platform_specific_scripts w p))\<lparr>platform_system := s\<rparr>)
   \<and> (can_write w (path_join p ''build.bat'') \<and> can_write w (path_join p ''build.ps1'') \<longrightarrow>
        fs_files (snd (create_platform_specific_scripts w p)) (path_join p ''build.bat'')
          = Some batch_content
        \<and> fs_files (snd (create_platform_specific_scripts w p)) (path_join p ''build.ps1'')
          = Some powershell_content)
   \<and> (can_write w (path_join p ''build.bat'') \<and> can_write w (path_join p ''build.ps1'')
        \<and> can_write v (path_join q ''build.bat'') \<and> can_write v (path_join q ''build.ps1'') \<longrightarrow>
        fs_files (snd (create_platform_specific_scripts w p)) (path_join p ''build.bat'')
          = fs_files (snd (create_platform_specific_scripts v q)) (path_join q ''build.bat'')
        \<and> fs_files (snd (create_platform_specific_scripts w p)) (path_join p ''build.ps1'')
          = fs_files (snd (create_platform_specific_scripts v q)) (path_join q ''build.ps1''))"
proof -
  have a: "create_platform_specific_scripts (w\<lparr>platform_system := s\<rparr>) p =
     (fst (create_platform_specific_scripts w p),
      (snd (create_platform_specific_scripts w p))\<lparr>platform_system := s\<rparr>)"
    by (rule create_platform_independent)
  have b: "fs_files (snd (create_platform_specific_scripts u r)) (path_join r ''build.bat'')
          = Some batch_content
        \<and> fs_files (snd (create_platform_specific_scripts u r)) (path_join r ''build.ps1'')
          = Some powershell_content"
    if "can_write u (path_join r ''build.bat'')" "can_write u (path_join r ''build.ps1'')"
    for u r
    using script_paths_distinct [of r] by (simp add: create_ok [OF that])
  from a b [of w p] b [of v q] show ?thesis by simp
qed

theorem create_platform_specific_scripts_fixed_content_witness:
  "fs_files (snd (create_platform_specific_scripts windows_world [''tmp'', ''proj'']))
        (path_join [''tmp'', ''proj''] ''build.bat'')
     = fs_files (snd (create_platform_specific_scripts
                        (posix_world\<lparr>fs_dirs := {[''srv'']}\<rparr>) [''srv'']))
        (path_join [''srv''] ''build.bat'')
   \<and> fs_files (snd (create_platform_specific_scripts windows_world [''tmp'', ''proj'']))
        (path_join [''tmp'', ''proj''] ''build.bat'') = Some batch_content"
proof -
  have h1: "can_write windows_world (path_join [''tmp'', ''proj''] ''build.bat'')"
    by (simp add: can_write_def path_join_def posix_world_def windows_world_def)
  have h2: "can_write windows_world (path_join [''tmp'', ''proj''] ''build.ps1'')"
    by (simp add: can_write_def path_join_def posix_world_def windows_world_def)
  have h3: "can_write (posix_world\<lparr>fs_dirs := {[''srv'']}\<rparr>) (path_join [''srv''] ''build.bat'')"
    by (simp add: can_write_def path_join_def posix_world_def)
  have h4: "can_write (posix_world\<lparr>fs_dirs := {[''srv'']}\<rparr>) (path_join [''srv''] ''build.ps1'')"
    by (simp add: can_write_def path_join_def posix_world_def)
  from create_platform_specific_scripts_fixed_content
         [where w = windows_world and p = "[''tmp'', ''proj'']"
            and v = "posix_world\<lparr>fs_dirs := {[''srv'']}\<rparr>" and q = "[''srv'']"
            and s = "''Linux''"]
       h1 h2 h3 h4
  show ?thesis by blast
qed

end
